theory Spec2Isabelle
  imports Complex_Main
begin

section \<open>Data model\<close>

text \<open>
  The campaign table \<^verbatim>\<open>campaign_df\<close> is a dataframe loaded from
  \<^verbatim>\<open>marketing_gold.gold_campaign_agg\<close>: an ordered sequence of rows. A row has the
  columns that \<^verbatim>\<open>app.py\<close> reads. The floating-point columns hold finite numbers,
  taken here as reals; the integer column is taken as an unbounded integer. The one
  non-finite float that the functions below can produce, NaN, is a value of its own.
\<close>

record campaign =
  campaign_id :: int
  campaign_type :: string
  conversion_rate :: real
  cac :: real
  roi_percent :: real
  clicks :: int

type_synonym dataframe = "campaign list"

datatype number = NaN | Num real

text \<open>The dictionary returned by \<^verbatim>\<open>overall_metrics\<close>, one field per key.\<close>

record metrics =
  avg_conversion :: number
  avg_cac :: number
  avg_roi :: number
  total_clicks :: int

text \<open>
  The objects that Python can hold under a key of that dictionary, and the test
  \<^verbatim>\<open>isinstance(v, float)\<close>. NaN is a float like any other: \<^verbatim>\<open>float('nan')\<close> has the
  type \<^verbatim>\<open>float\<close>, and it is formatted as \<^verbatim>\<open>nan\<close> by the format strings of the
  Executive Summary page. A value that marks missing data apart from the floats would
  be \<^verbatim>\<open>None\<close>.
\<close>

datatype pyobject = PyNone | PyFloat number | PyInt int

fun is_float :: "pyobject \<Rightarrow> bool" where
  "is_float (PyFloat x) = True"
| "is_float PyNone = False"
| "is_float (PyInt n) = False"

text \<open>The dictionary literal of \<^verbatim>\<open>overall_metrics\<close>, key by key, with the objects stored.\<close>

definition metrics_dict :: "metrics \<Rightarrow> (string \<times> pyobject) list" where
  "metrics_dict m =
     [(''avg_conversion'', PyFloat (avg_conversion m)),
      (''avg_cac'', PyFloat (avg_cac m)),
      (''avg_roi'', PyFloat (avg_roi m)),
      (''total_clicks'', PyInt (total_clicks m))]"

text \<open>
  One dictionary appended to \<^verbatim>\<open>alerts\<close>; the key \<^verbatim>\<open>campaign_id\<close> is the field
  \<open>alert_campaign_id\<close>, since the row type already has a column of that name.
\<close>

record alert =
  alert_campaign_id :: int
  issue :: string
  severity :: string
  recommendation :: string

section \<open>Series operations\<close>

text \<open>
  \<^verbatim>\<open>Series.sum()\<close> adds the values from left to right, starting at 0.
  \<^verbatim>\<open>Series.mean()\<close> is the sum over the count, and NaN for a series without values.
\<close>

definition sum_s :: "int list \<Rightarrow> int" where
  "sum_s xs = foldl (+) 0 xs"

definition mean_s :: "real list \<Rightarrow> number" where
  "mean_s xs = (if xs = [] then NaN else Num (foldl (+) 0 xs / real (length xs)))"

text \<open>
  \<^verbatim>\<open>Series.quantile(q)\<close> with the default interpolation \<^verbatim>\<open>linear\<close>, for
  \<open>0 \<le> q \<le> 1\<close>: the virtual index \<open>q * (n - 1)\<close> into the sorted values, and
  between its two neighbours the point at the fractional part. NaN for a series
  without values.
\<close>

definition quantile_s :: "real list \<Rightarrow> real \<Rightarrow> number" where
  "quantile_s xs q =
     (if xs = [] then NaN
      else let s = sort xs;
               n = length xs;
               pos = q * real (n - 1);
               lo = nat \<lfloor>pos\<rfloor>;
               hi = min (lo + 1) (n - 1);
               g = pos - real lo
           in Num (s ! lo + (s ! hi - s ! lo) * g))"

text \<open>The comparison \<^verbatim>\<open>x < y\<close> of a float with a possibly-NaN float: false at NaN.\<close>

fun lt_s :: "real \<Rightarrow> number \<Rightarrow> bool" where
  "lt_s x NaN = False"
| "lt_s x (Num y) = (x < y)"

text \<open>\<^verbatim>\<open>Series.unique()\<close>: the distinct values in order of first appearance.\<close>

fun unique_s :: "int list \<Rightarrow> int list" where
  "unique_s [] = []"
| "unique_s (x # xs) = x # unique_s (filter (\<lambda>y. y \<noteq> x) xs)"

section \<open>Business metrics\<close>

text \<open>
  The argument \<^verbatim>\<open>df\<close> is an object passed by reference. Each function of the
  program returns, next to its result, the value of that object when the call ends.
\<close>

definition overall_metrics_call :: "dataframe \<Rightarrow> metrics \<times> dataframe" where
  "overall_metrics_call df =
     (\<lparr>avg_conversion = mean_s (map conversion_rate df),
       avg_cac = mean_s (map cac df),
       avg_roi = mean_s (map roi_percent df),
       total_clicks = sum_s (map clicks df)\<rparr>, df)"

definition overall_metrics :: "dataframe \<Rightarrow> metrics" where
  "overall_metrics df = fst (overall_metrics_call df)"

section \<open>Recommendation engine\<close>

text \<open>
  The variables of \<^verbatim>\<open>campaign_alerts\<close> that the two loops work on: the argument and
  the list \<^verbatim>\<open>alerts\<close>, which \<^verbatim>\<open>append\<close> extends at its end.
\<close>

record frame =
  df :: dataframe
  alerts :: "alert list"

fun low_conv_loop :: "campaign list \<Rightarrow> frame \<Rightarrow> frame" where
  "low_conv_loop [] s = s"
| "low_conv_loop (row # rows) s =
     (let severity = (if roi_percent row < 0 then ''High'' else ''Medium'')
      in low_conv_loop rows
           (s\<lparr>alerts := alerts s @
                [\<lparr>alert_campaign_id = campaign_id row,
                  issue = ''Low Conversion Rate'',
                  severity = severity,
                  recommendation = ''Reallocate budget or test new creative/channel mix''\<rparr>]\<rparr>))"

fun low_roi_loop :: "campaign list \<Rightarrow> frame \<Rightarrow> frame" where
  "low_roi_loop [] s = s"
| "low_roi_loop (row # rows) s =
     low_roi_loop rows
       (s\<lparr>alerts := alerts s @
            [\<lparr>alert_campaign_id = campaign_id row,
              issue = ''Negative ROI'',
              severity = ''Critical'',
              recommendation = ''Pause campaign immediately and investigate CAC drivers''\<rparr>]\<rparr>)"

definition campaign_alerts_call :: "dataframe \<Rightarrow> alert list \<times> dataframe" where
  "campaign_alerts_call d =
     (let s0 = \<lparr>df = d, alerts = []\<rparr>;
          low_conv = filter (\<lambda>r. lt_s (conversion_rate r)
                                   (quantile_s (map conversion_rate (df s0)) (1/4))) (df s0);
          low_roi = filter (\<lambda>r. roi_percent r < 0) (df s0);
          s1 = low_conv_loop low_conv s0;
          s2 = low_roi_loop low_roi s1
      in (alerts s2, df s2))"

definition campaign_alerts :: "dataframe \<Rightarrow> alert list" where
  "campaign_alerts d = fst (campaign_alerts_call d)"

section \<open>Page 2: Campaign Deep Dive\<close>

datatype error = IndexError

datatype widget =
    Title string
  | Selectbox string "int list"
  | Metric string real
  | Dataframe "campaign list"

text \<open>\<^verbatim>\<open>.iloc[0]\<close>: the first value, and an IndexError on a series without values.\<close>

fun iloc0 :: "'a list \<Rightarrow> error + 'a" where
  "iloc0 [] = Inl IndexError"
| "iloc0 (x # xs) = Inr x"

text \<open>
  The page as a function of the table and of the value that the selection control
  returned. The widgets are listed in the order of the calls; the number given to a
  metric is the one that the format string receives. A raise ends the page.
\<close>

definition deep_dive_page :: "dataframe \<Rightarrow> int \<Rightarrow> error + widget list" where
  "deep_dive_page campaign_df selected_campaign =
     (let d = filter (\<lambda>r. campaign_id r = selected_campaign) campaign_df
      in case iloc0 (map conversion_rate d) of Inl e \<Rightarrow> Inl e | Inr c \<Rightarrow>
         (case iloc0 (map roi_percent d) of Inl e \<Rightarrow> Inl e | Inr r \<Rightarrow>
         (case iloc0 (map cac d) of Inl e \<Rightarrow> Inl e | Inr a \<Rightarrow>
            Inr [Title ''Campaign Deep Dive'',
                 Selectbox ''Select Campaign'' (unique_s (map campaign_id campaign_df)),
                 Metric ''Conversion Rate'' c,
                 Metric ''ROI'' r,
                 Metric ''CAC'' a,
                 Dataframe d])))"

section \<open>Sample tables\<close>

text \<open>
  The two-row table of the specification's Scenario A, and a row whose ROI is exactly 0
  (Scenario D).
\<close>

definition row_1 :: campaign where
  "row_1 = \<lparr>campaign_id = 1, campaign_type = ''email'', conversion_rate = 1/10,
             cac = 20, roi_percent = -5, clicks = 100\<rparr>"

definition row_2 :: campaign where
  "row_2 = \<lparr>campaign_id = 2, campaign_type = ''social'', conversion_rate = 1/2,
             cac = 10, roi_percent = 20, clicks = 200\<rparr>"

definition row_3 :: campaign where
  "row_3 = \<lparr>campaign_id = 3, campaign_type = ''search'', conversion_rate = 3/10,
             cac = 15, roi_percent = 0, clicks = 50\<rparr>"

definition scenario_a :: dataframe where
  "scenario_a = [row_1, row_2]"

section \<open>Series operations: basic facts\<close>

lemma foldl_add_sum_list: "foldl (+) a xs = a + sum_list (xs :: 'a::monoid_add list)"
  by (induction xs arbitrary: a) (simp_all add: add.assoc)

lemma sum_s_sum_list: "sum_s xs = sum_list xs"
  by (simp add: sum_s_def foldl_add_sum_list)

lemma mean_s_Nil: "mean_s [] = NaN"
  by (simp add: mean_s_def)

lemma mean_s_sum_list: "xs \<noteq> [] \<Longrightarrow> mean_s xs = Num (sum_list xs / real (length xs))"
  by (simp add: mean_s_def foldl_add_sum_list)

lemma quantile_s_Nil: "quantile_s [] q = NaN"
  by (simp add: quantile_s_def)

text \<open>On a series whose values are all equal, every quantile is that value.\<close>

lemma quantile_s_const:
  assumes "xs \<noteq> []" and "\<forall>x\<in>set xs. x = v" and "0 \<le> q" and "q \<le> 1"
  shows "quantile_s xs q = Num v"
proof -
  let ?n = "length xs"
  let ?pos = "q * real (?n - 1)"
  let ?lo = "nat \<lfloor>?pos\<rfloor>"
  let ?hi = "min (?lo + 1) (?n - 1)"
  have n: "0 < ?n" using assms(1) by simp
  have "?pos \<le> real (?n - 1)"
    using assms(3,4) by (simp add: mult_left_le_one_le)
  then have "\<lfloor>?pos\<rfloor> \<le> int (?n - 1)" by linarith
  then have lo: "?lo < ?n" using n by linarith
  have "?n - 1 < ?n" using n by simp
  then have hi: "?hi < ?n" by (simp only: min_less_iff_disj) simp
  have all: "\<And>i. i < ?n \<Longrightarrow> sort xs ! i = v"
  proof -
    fix i assume "i < ?n"
    then have "i < length (sort xs)" by simp
    then have "sort xs ! i \<in> set (sort xs)" by (rule nth_mem)
    then have "sort xs ! i \<in> set xs" by simp
    then show "sort xs ! i = v" using assms(2) by blast
  qed
  show ?thesis
    using assms(1) all[OF lo] all[OF hi] by (simp add: quantile_s_def Let_def)
qed

section \<open>The loops of the recommendation engine\<close>

lemma low_conv_loop_df: "df (low_conv_loop rows s) = df s"
  by (induction rows arbitrary: s) (simp_all add: Let_def)

lemma low_roi_loop_df: "df (low_roi_loop rows s) = df s"
  by (induction rows arbitrary: s) simp_all

lemma low_conv_loop_alerts:
  "alerts (low_conv_loop rows s) = alerts s @
     map (\<lambda>row. \<lparr>alert_campaign_id = campaign_id row,
                 issue = ''Low Conversion Rate'',
                 severity = (if roi_percent row < 0 then ''High'' else ''Medium''),
                 recommendation = ''Reallocate budget or test new creative/channel mix''\<rparr>) rows"
  by (induction rows arbitrary: s) (simp_all add: Let_def)

lemma low_roi_loop_alerts:
  "alerts (low_roi_loop rows s) = alerts s @
     map (\<lambda>row. \<lparr>alert_campaign_id = campaign_id row,
                 issue = ''Negative ROI'',
                 severity = ''Critical'',
                 recommendation = ''Pause campaign immediately and investigate CAC drivers''\<rparr>) rows"
  by (induction rows arbitrary: s) simp_all

lemma campaign_alerts_call_snd: "snd (campaign_alerts_call T) = T"
  by (simp add: campaign_alerts_call_def Let_def low_conv_loop_df low_roi_loop_df)

lemma overall_metrics_call_snd: "snd (overall_metrics_call T) = T"
  by (simp add: overall_metrics_call_def)

lemma campaign_alerts_eq:
  "campaign_alerts T =
     map (\<lambda>row. \<lparr>alert_campaign_id = campaign_id row,
                 issue = ''Low Conversion Rate'',
                 severity = (if roi_percent row < 0 then ''High'' else ''Medium''),
                 recommendation = ''Reallocate budget or test new creative/channel mix''\<rparr>)
       (filter (\<lambda>r. lt_s (conversion_rate r) (quantile_s (map conversion_rate T) (1/4))) T) @
     map (\<lambda>row. \<lparr>alert_campaign_id = campaign_id row,
                 issue = ''Negative ROI'',
                 severity = ''Critical'',
                 recommendation = ''Pause campaign immediately and investigate CAC drivers''\<rparr>)
       (filter (\<lambda>r. roi_percent r < 0) T)"
  by (simp add: campaign_alerts_def campaign_alerts_call_def Let_def
      low_conv_loop_alerts low_roi_loop_alerts low_conv_loop_df)

lemma filter_map_all: "(\<And>x. P (f x)) \<Longrightarrow> filter P (map f xs) = map f xs"
  by (induction xs) simp_all

lemma filter_map_none: "(\<And>x. \<not> P (f x)) \<Longrightarrow> filter P (map f xs) = []"
  by (induction xs) simp_all

lemma negative_roi_part:
  "filter (\<lambda>a. issue a = ''Negative ROI'') (campaign_alerts T) =
     map (\<lambda>row. \<lparr>alert_campaign_id = campaign_id row,
                 issue = ''Negative ROI'',
                 severity = ''Critical'',
                 recommendation = ''Pause campaign immediately and investigate CAC drivers''\<rparr>)
       (filter (\<lambda>r. roi_percent r < 0) T)"
  by (simp add: campaign_alerts_eq filter_map_all filter_map_none)

lemma low_conversion_part:
  "filter (\<lambda>a. issue a = ''Low Conversion Rate'') (campaign_alerts T) =
     map (\<lambda>row. \<lparr>alert_campaign_id = campaign_id row,
                 issue = ''Low Conversion Rate'',
                 severity = (if roi_percent row < 0 then ''High'' else ''Medium''),
                 recommendation = ''Reallocate budget or test new creative/channel mix''\<rparr>)
       (filter (\<lambda>r. lt_s (conversion_rate r) (quantile_s (map conversion_rate T) (1/4))) T)"
  by (simp add: campaign_alerts_eq filter_map_all filter_map_none)

lemma two_entries_in_append:
  assumes "x \<in> set xs" and "y \<in> set ys"
  shows "\<exists>i j. i < j \<and> j < length (xs @ ys) \<and> (xs @ ys) ! i = x \<and> (xs @ ys) ! j = y"
proof -
  from assms(1) obtain i where i: "i < length xs" "xs ! i = x"
    by (auto simp: in_set_conv_nth)
  from assms(2) obtain k where k: "k < length ys" "ys ! k = y"
    by (auto simp: in_set_conv_nth)
  have "i < length xs + k" using i(1) by simp
  moreover have "length xs + k < length (xs @ ys)" using k(1) by simp
  moreover have "(xs @ ys) ! i = x" using i by (simp add: nth_append)
  moreover have "(xs @ ys) ! (length xs + k) = y" using k by (simp add: nth_append)
  ultimately show ?thesis by blast
qed

lemma set_unique_s: "set (unique_s xs) = set xs"
  by (induction xs rule: unique_s.induct) auto

section \<open>Campaign Deep Dive with an identifier that the table does not have\<close>

text \<open>
  Claim C1, as amended. The specification asks that a selected campaign identifier which
  is not in the table gives an empty result set shown as an empty table, with no error.
  In the program the result set is indeed empty, but the first scalar display reads row
  0 of it with \<^verbatim>\<open>.iloc[0]\<close>, which raises an IndexError before any table is shown.
  The page is rendered without error for the identifiers of the table, the only ones
  that the selection control offers (\<open>set_unique_s\<close>); its last widget is then the
  table of the matching rows, which is not empty.
\<close>

theorem deep_dive_page_result:
  "(selected \<notin> campaign_id ` set T \<longrightarrow>
      filter (\<lambda>r. campaign_id r = selected) T = [] \<and>
      deep_dive_page T selected = Inl IndexError) \<and>
   (selected \<in> campaign_id ` set T \<longrightarrow>
      filter (\<lambda>r. campaign_id r = selected) T \<noteq> [] \<and>
      (\<exists>ws. deep_dive_page T selected =
              Inr (ws @ [Dataframe (filter (\<lambda>r. campaign_id r = selected) T)])))"
proof (intro conjI impI)
  assume a: "selected \<notin> campaign_id ` set T"
  then show e: "filter (\<lambda>r. campaign_id r = selected) T = []"
    by (auto simp: filter_empty_conv)
  show "deep_dive_page T selected = Inl IndexError"
    by (simp add: deep_dive_page_def e)
next
  assume a: "selected \<in> campaign_id ` set T"
  then show ne: "filter (\<lambda>r. campaign_id r = selected) T \<noteq> []"
    by (auto simp: filter_empty_conv)
  then obtain r rs where "filter (\<lambda>r. campaign_id r = selected) T = r # rs"
    by (cases "filter (\<lambda>r. campaign_id r = selected) T") auto
  then show "\<exists>ws. deep_dive_page T selected =
              Inr (ws @ [Dataframe (filter (\<lambda>r. campaign_id r = selected) T)])"
    by (simp add: deep_dive_page_def)
qed

text \<open>Both cases on the table of Scenario A: identifier 7 is unknown, identifier 2 is row 2.\<close>

theorem deep_dive_page_result_witness:
  "(7::int) \<notin> campaign_id ` set scenario_a \<and>
   deep_dive_page scenario_a 7 = Inl IndexError \<and>
   (2::int) \<in> campaign_id ` set scenario_a \<and>
   (\<exists>ws. deep_dive_page scenario_a 2 = Inr (ws @ [Dataframe [row_2]]))"
  using deep_dive_page_result [of 7 scenario_a] deep_dive_page_result [of 2 scenario_a]
  by (simp add: scenario_a_def row_1_def row_2_def)

text \<open>
  Claim C1 as the specification states it fails: identifier 7 is not in the two-row
  table, and the page ends with an IndexError instead of an empty table.
\<close>

theorem deep_dive_unknown_id_raises:
  "7 \<notin> campaign_id ` set [row_1, row_2] \<and>
   deep_dive_page [row_1, row_2] 7 = Inl IndexError"
  by (simp add: deep_dive_page_def row_1_def row_2_def)

section \<open>Overall metrics\<close>

text \<open>
  Claim C2, as amended. The specification asks that on the empty campaign table the
  three means are an explicit "no data" value that is not a number. The program returns
  what \<^verbatim>\<open>Series.mean()\<close> gives on an empty series, the float NaN, for
  \<open>avg_conversion\<close>, \<open>avg_cac\<close> and \<open>avg_roi\<close>, without any handling of the
  empty table: each of the three is a float object, it is not \<^verbatim>\<open>None\<close>, and it is
  not the float 0. \<open>total_clicks\<close> is 0.
\<close>

theorem overall_metrics_empty:
  "overall_metrics [] =
     \<lparr>avg_conversion = NaN, avg_cac = NaN, avg_roi = NaN, total_clicks = 0\<rparr> \<and>
   metrics_dict (overall_metrics []) =
     [(''avg_conversion'', PyFloat NaN), (''avg_cac'', PyFloat NaN),
      (''avg_roi'', PyFloat NaN), (''total_clicks'', PyInt 0)] \<and>
   is_float (PyFloat NaN) \<and> PyFloat NaN \<noteq> PyNone \<and> PyFloat NaN \<noteq> PyFloat (Num 0)"
  by (simp add: metrics_dict_def overall_metrics_def overall_metrics_call_def mean_s_def
      sum_s_def)

text \<open>
  Claim C2 as the specification states it fails: on the empty table the objects under
  the keys \<^verbatim>\<open>avg_conversion\<close>, \<^verbatim>\<open>avg_cac\<close> and \<^verbatim>\<open>avg_roi\<close> are floats.
\<close>

theorem overall_metrics_empty_returns_floats:
  "map_of (metrics_dict (overall_metrics [])) ''avg_conversion'' = Some (PyFloat NaN) \<and>
   map_of (metrics_dict (overall_metrics [])) ''avg_cac'' = Some (PyFloat NaN) \<and>
   map_of (metrics_dict (overall_metrics [])) ''avg_roi'' = Some (PyFloat NaN) \<and>
   is_float (PyFloat NaN)"
  by (simp add: metrics_dict_def overall_metrics_def overall_metrics_call_def mean_s_def)

text \<open>
  Claim C6. For every campaign table, \<open>total_clicks\<close> of \<^verbatim>\<open>overall_metrics\<close> is the
  sum of the column \<open>clicks\<close> over all rows, and it is 0 for the empty table.
\<close>

theorem total_clicks_sum:
  "total_clicks (overall_metrics T) = (\<Sum>r\<leftarrow>T. clicks r) \<and>
   total_clicks (overall_metrics []) = 0"
  by (simp add: overall_metrics_def overall_metrics_call_def sum_s_sum_list)

text \<open>
  Claim C7, as amended. For every campaign table that is not empty and whose rows all
  have a conversion rate between 0 and 1, \<open>avg_conversion\<close> of
  \<^verbatim>\<open>overall_metrics\<close> is a number between 0 and 1. For the empty table it is the
  float NaN that \<^verbatim>\<open>Series.mean()\<close> returns, a float object and not a value apart
  from the floats.
\<close>

theorem avg_conversion_range:
  "(T \<noteq> [] \<and> (\<forall>r\<in>set T. 0 \<le> conversion_rate r \<and> conversion_rate r \<le> 1) \<longrightarrow>
      (\<exists>m. avg_conversion (overall_metrics T) = Num m \<and> 0 \<le> m \<and> m \<le> 1)) \<and>
   avg_conversion (overall_metrics []) = NaN \<and>
   hd (metrics_dict (overall_metrics [])) = (''avg_conversion'', PyFloat NaN) \<and>
   is_float (PyFloat NaN) \<and> PyFloat NaN \<noteq> PyNone"
proof (intro conjI impI)
  show "avg_conversion (overall_metrics []) = NaN"
    by (simp add: overall_metrics_def overall_metrics_call_def mean_s_Nil)
  show "hd (metrics_dict (overall_metrics [])) = (''avg_conversion'', PyFloat NaN)"
    by (simp add: metrics_dict_def overall_metrics_def overall_metrics_call_def mean_s_Nil)
  show "is_float (PyFloat NaN)" by simp
  show "PyFloat NaN \<noteq> PyNone" by simp
next
  assume a: "T \<noteq> [] \<and> (\<forall>r\<in>set T. 0 \<le> conversion_rate r \<and> conversion_rate r \<le> 1)"
  let ?xs = "map conversion_rate T"
  have ne: "?xs \<noteq> []" using a by simp
  have len: "0 < real (length T)" using a by simp
  have lo: "0 \<le> sum_list ?xs"
    using a by (intro sum_list_nonneg) auto
  have "sum_list ?xs \<le> sum_list (map (\<lambda>r. 1) T)"
    using a by (intro sum_list_mono) auto
  then have hi: "sum_list ?xs \<le> real (length T)"
    by (simp add: sum_list_triv)
  have m: "avg_conversion (overall_metrics T) = Num (sum_list ?xs / real (length T))"
    using mean_s_sum_list [OF ne] by (simp add: overall_metrics_def overall_metrics_call_def)
  have "0 \<le> sum_list ?xs / real (length T)" using lo by simp
  moreover have "sum_list ?xs / real (length T) \<le> 1" using hi len by simp
  ultimately show "\<exists>m. avg_conversion (overall_metrics T) = Num m \<and> 0 \<le> m \<and> m \<le> 1"
    using m by blast
qed

text \<open>Scenario A: the mean of 0.10 and 0.50 is 0.30.\<close>

theorem avg_conversion_range_witness:
  "scenario_a \<noteq> [] \<and>
   0 \<le> conversion_rate row_1 \<and> conversion_rate row_1 \<le> 1 \<and>
   0 \<le> conversion_rate row_2 \<and> conversion_rate row_2 \<le> 1 \<and>
   avg_conversion (overall_metrics scenario_a) = Num (3/10)"
  using avg_conversion_range [of scenario_a]
  by (simp add: scenario_a_def row_1_def row_2_def overall_metrics_def overall_metrics_call_def mean_s_def)

text \<open>
  Claim C7 as the specification states it fails on the empty table: the object under
  the key \<^verbatim>\<open>avg_conversion\<close> is a float.
\<close>

theorem avg_conversion_empty_is_float:
  "map_of (metrics_dict (overall_metrics [])) ''avg_conversion'' = Some (PyFloat NaN) \<and>
   is_float (PyFloat NaN) \<and> \<not> is_float PyNone"
  by (simp add: metrics_dict_def overall_metrics_def overall_metrics_call_def mean_s_def)

section \<open>Alerts\<close>

text \<open>
  Claim C3. For every campaign table, the alerts of \<^verbatim>\<open>campaign_alerts\<close> with issue
  "Negative ROI" are, in order, the images of the rows with \<open>roi_percent < 0\<close>: one
  alert for each such row, with severity "Critical" and the fixed recommendation, and
  no other alert with that issue, so there are as many of them as such rows. A row with
  \<open>roi_percent = 0\<close> produces none: with or without that row in the table, the alerts
  with this issue are the same.
\<close>

theorem negative_roi_alerts_bijection:
  "filter (\<lambda>a. issue a = ''Negative ROI'') (campaign_alerts T) =
     map (\<lambda>row. \<lparr>alert_campaign_id = campaign_id row,
                 issue = ''Negative ROI'',
                 severity = ''Critical'',
                 recommendation = ''Pause campaign immediately and investigate CAC drivers''\<rparr>)
       (filter (\<lambda>r. roi_percent r < 0) T) \<and>
   length (filter (\<lambda>a. issue a = ''Negative ROI'') (campaign_alerts T)) =
     length (filter (\<lambda>r. roi_percent r < 0) T) \<and>
   (roi_percent r = 0 \<longrightarrow>
      filter (\<lambda>a. issue a = ''Negative ROI'') (campaign_alerts (T1 @ r # T2)) =
      filter (\<lambda>a. issue a = ''Negative ROI'') (campaign_alerts (T1 @ T2)))"
proof (intro conjI impI)
  show "filter (\<lambda>a. issue a = ''Negative ROI'') (campaign_alerts T) =
     map (\<lambda>row. \<lparr>alert_campaign_id = campaign_id row,
                 issue = ''Negative ROI'',
                 severity = ''Critical'',
                 recommendation = ''Pause campaign immediately and investigate CAC drivers''\<rparr>)
       (filter (\<lambda>r. roi_percent r < 0) T)"
    by (rule negative_roi_part)
  show "length (filter (\<lambda>a. issue a = ''Negative ROI'') (campaign_alerts T)) =
     length (filter (\<lambda>r. roi_percent r < 0) T)"
    by (simp only: negative_roi_part length_map)
next
  assume "roi_percent r = 0"
  then show "filter (\<lambda>a. issue a = ''Negative ROI'') (campaign_alerts (T1 @ r # T2)) =
      filter (\<lambda>a. issue a = ''Negative ROI'') (campaign_alerts (T1 @ T2))"
    by (simp add: negative_roi_part)
qed

text \<open>
  Scenario D: row 3 has an ROI of 0; between rows 1 and 2 it adds no "Negative ROI"
  alert to the single one of row 1.
\<close>

theorem negative_roi_alerts_bijection_witness:
  "roi_percent row_3 = 0 \<and>
   filter (\<lambda>a. issue a = ''Negative ROI'') (campaign_alerts [row_1, row_3, row_2]) =
     [\<lparr>alert_campaign_id = 1, issue = ''Negative ROI'', severity = ''Critical'',
       recommendation = ''Pause campaign immediately and investigate CAC drivers''\<rparr>] \<and>
   filter (\<lambda>a. issue a = ''Negative ROI'') (campaign_alerts [row_1, row_3, row_2]) =
   filter (\<lambda>a. issue a = ''Negative ROI'') (campaign_alerts [row_1, row_2])"
  using negative_roi_alerts_bijection [of "[row_1, row_3, row_2]" row_3 "[row_1]" "[row_2]"]
  by (simp add: campaign_alerts_eq quantile_s_def Let_def row_1_def row_2_def row_3_def)

text \<open>
  Claim C4. For every campaign table, the number of alerts of \<^verbatim>\<open>campaign_alerts\<close>
  with issue "Low Conversion Rate" is the number of rows whose conversion rate is
  strictly below the 25th percentile of the conversion rates of the table, computed
  by linear interpolation; each of these alerts comes from such a row, with severity
  "High" when the ROI of the row is negative and "Medium" otherwise, and with the fixed
  recommendation.
\<close>

theorem low_conversion_alerts_count:
  "length (filter (\<lambda>a. issue a = ''Low Conversion Rate'') (campaign_alerts T)) =
     length (filter (\<lambda>r. lt_s (conversion_rate r)
                              (quantile_s (map conversion_rate T) (1/4))) T) \<and>
   filter (\<lambda>a. issue a = ''Low Conversion Rate'') (campaign_alerts T) =
     map (\<lambda>row. \<lparr>alert_campaign_id = campaign_id row,
                 issue = ''Low Conversion Rate'',
                 severity = (if roi_percent row < 0 then ''High'' else ''Medium''),
                 recommendation = ''Reallocate budget or test new creative/channel mix''\<rparr>)
       (filter (\<lambda>r. lt_s (conversion_rate r)
                         (quantile_s (map conversion_rate T) (1/4))) T)"
  by (simp only: low_conversion_part length_map simp_thms)

text \<open>
  Scenario A has the 25th percentile 0.2, and row 1 alone is below it. In a table of
  five rows with the conversion rates 0.5, 0.3, 0.1, 0.3, 0.5 the percentile is 0.3, and
  the rows at 0.3 are not strictly below it.
\<close>

theorem low_conversion_alerts_count_witness:
  "quantile_s (map conversion_rate scenario_a) (1/4) = Num (1/5) \<and>
   filter (\<lambda>a. issue a = ''Low Conversion Rate'') (campaign_alerts scenario_a) =
     [\<lparr>alert_campaign_id = 1, issue = ''Low Conversion Rate'', severity = ''High'',
       recommendation = ''Reallocate budget or test new creative/channel mix''\<rparr>] \<and>
   filter (\<lambda>a. issue a = ''Low Conversion Rate'') (campaign_alerts [row_2, row_3, row_1, row_3, row_2]) =
     [\<lparr>alert_campaign_id = 1, issue = ''Low Conversion Rate'', severity = ''High'',
       recommendation = ''Reallocate budget or test new creative/channel mix''\<rparr>]"
  using low_conversion_alerts_count [of scenario_a] low_conversion_alerts_count [of "[row_2, row_3, row_1, row_3, row_2]"]
  by (simp add: campaign_alerts_eq scenario_a_def row_1_def row_2_def row_3_def quantile_s_def Let_def)

text \<open>
  Claim C5. For every campaign table, \<^verbatim>\<open>campaign_alerts\<close> returns the
  "Low Conversion Rate" alerts first, in the order of the rows, and then the
  "Negative ROI" alerts, in the order of the rows. A row that meets both conditions has
  two entries, one of each rule, at two different positions. The empty table gives the
  empty sequence of alerts.
\<close>

theorem alerts_order_and_duplication:
  "campaign_alerts T =
     map (\<lambda>row. \<lparr>alert_campaign_id = campaign_id row,
                 issue = ''Low Conversion Rate'',
                 severity = (if roi_percent row < 0 then ''High'' else ''Medium''),
                 recommendation = ''Reallocate budget or test new creative/channel mix''\<rparr>)
       (filter (\<lambda>r. lt_s (conversion_rate r) (quantile_s (map conversion_rate T) (1/4))) T) @
     map (\<lambda>row. \<lparr>alert_campaign_id = campaign_id row,
                 issue = ''Negative ROI'',
                 severity = ''Critical'',
                 recommendation = ''Pause campaign immediately and investigate CAC drivers''\<rparr>)
       (filter (\<lambda>r. roi_percent r < 0) T) \<and>
   (r \<in> set T \<and> lt_s (conversion_rate r) (quantile_s (map conversion_rate T) (1/4)) \<and>
    roi_percent r < 0 \<longrightarrow>
      (\<exists>i j. i < j \<and> j < length (campaign_alerts T) \<and>
         campaign_alerts T ! i =
           \<lparr>alert_campaign_id = campaign_id r, issue = ''Low Conversion Rate'',
             severity = ''High'',
             recommendation = ''Reallocate budget or test new creative/channel mix''\<rparr> \<and>
         campaign_alerts T ! j =
           \<lparr>alert_campaign_id = campaign_id r, issue = ''Negative ROI'',
             severity = ''Critical'',
             recommendation = ''Pause campaign immediately and investigate CAC drivers''\<rparr>)) \<and>
   campaign_alerts [] = []"
proof (intro conjI impI)
  let ?low = "\<lambda>row. \<lparr>alert_campaign_id = campaign_id row,
                 issue = ''Low Conversion Rate'',
                 severity = (if roi_percent row < 0 then ''High'' else ''Medium''),
                 recommendation = ''Reallocate budget or test new creative/channel mix''\<rparr>"
  let ?neg = "\<lambda>row. \<lparr>alert_campaign_id = campaign_id row,
                 issue = ''Negative ROI'',
                 severity = ''Critical'',
                 recommendation = ''Pause campaign immediately and investigate CAC drivers''\<rparr>"
  let ?L = "map ?low (filter (\<lambda>r. lt_s (conversion_rate r) (quantile_s (map conversion_rate T) (1/4))) T)"
  let ?N = "map ?neg (filter (\<lambda>r. roi_percent r < 0) T)"
  show eq: "campaign_alerts T = ?L @ ?N"
    by (rule campaign_alerts_eq)
  show "campaign_alerts [] = []"
    by (simp add: campaign_alerts_eq)
  assume a: "r \<in> set T \<and> lt_s (conversion_rate r) (quantile_s (map conversion_rate T) (1/4)) \<and>
    roi_percent r < 0"
  then have rl: "r \<in> set (filter (\<lambda>r. lt_s (conversion_rate r) (quantile_s (map conversion_rate T) (1/4))) T)"
    by simp
  from a have rn: "r \<in> set (filter (\<lambda>r. roi_percent r < 0) T)"
    by simp
  from rl have "?low r \<in> ?low ` set (filter (\<lambda>r. lt_s (conversion_rate r) (quantile_s (map conversion_rate T) (1/4))) T)"
    by (rule imageI)
  then have "?low r \<in> set ?L" by (simp only: set_map)
  then have l: "\<lparr>alert_campaign_id = campaign_id r, issue = ''Low Conversion Rate'',
             severity = ''High'',
             recommendation = ''Reallocate budget or test new creative/channel mix''\<rparr> \<in> set ?L"
    using a by simp
  from rn have "?neg r \<in> ?neg ` set (filter (\<lambda>r. roi_percent r < 0) T)"
    by (rule imageI)
  then have n: "?neg r \<in> set ?N" by (simp only: set_map)
  show "\<exists>i j. i < j \<and> j < length (campaign_alerts T) \<and>
         campaign_alerts T ! i =
           \<lparr>alert_campaign_id = campaign_id r, issue = ''Low Conversion Rate'',
             severity = ''High'',
             recommendation = ''Reallocate budget or test new creative/channel mix''\<rparr> \<and>
         campaign_alerts T ! j =
           \<lparr>alert_campaign_id = campaign_id r, issue = ''Negative ROI'',
             severity = ''Critical'',
             recommendation = ''Pause campaign immediately and investigate CAC drivers''\<rparr>"
    unfolding eq by (rule two_entries_in_append [OF l n])
qed

text \<open>Scenario A: row 1 meets both conditions, and the result is its two alerts.\<close>

theorem alerts_order_and_duplication_witness:
  "row_1 \<in> set scenario_a \<and>
   lt_s (conversion_rate row_1) (quantile_s (map conversion_rate scenario_a) (1/4)) \<and>
   roi_percent row_1 < 0 \<and>
   campaign_alerts scenario_a =
     [\<lparr>alert_campaign_id = 1, issue = ''Low Conversion Rate'', severity = ''High'',
       recommendation = ''Reallocate budget or test new creative/channel mix''\<rparr>,
      \<lparr>alert_campaign_id = 1, issue = ''Negative ROI'', severity = ''Critical'',
       recommendation = ''Pause campaign immediately and investigate CAC drivers''\<rparr>]"
  using alerts_order_and_duplication [of scenario_a row_1]
  by (simp add: scenario_a_def row_1_def row_2_def quantile_s_def Let_def)

text \<open>
  Claim C10. For every campaign table that is not empty and whose rows all have the
  same conversion rate, the 25th percentile is that rate, and \<^verbatim>\<open>campaign_alerts\<close>
  returns no "Low Conversion Rate" alert, the comparison being strict.
\<close>

theorem equal_conversion_no_low_alerts:
  "T \<noteq> [] \<and> (\<forall>r\<in>set T. conversion_rate r = v) \<longrightarrow>
     quantile_s (map conversion_rate T) (1/4) = Num v \<and>
     filter (\<lambda>a. issue a = ''Low Conversion Rate'') (campaign_alerts T) = []"
proof (intro impI conjI)
  assume a: "T \<noteq> [] \<and> (\<forall>r\<in>set T. conversion_rate r = v)"
  then have ne: "map conversion_rate T \<noteq> []" by simp
  have allv: "\<forall>x\<in>set (map conversion_rate T). x = v" using a by auto
  show q: "quantile_s (map conversion_rate T) (1/4) = Num v"
    by (rule quantile_s_const [OF ne allv]) simp_all
  have "filter (\<lambda>r. lt_s (conversion_rate r) (Num v)) T = []"
    using a by (simp add: filter_empty_conv)
  then show "filter (\<lambda>a. issue a = ''Low Conversion Rate'') (campaign_alerts T) = []"
    by (simp add: low_conversion_part q)
qed

text \<open>
  Two rows at the conversion rate 0.3, the second one with a negative ROI: the only alert
  is the "Negative ROI" alert of the second row.
\<close>

theorem equal_conversion_no_low_alerts_witness:
  "[row_3, row_3\<lparr>campaign_id := 4, roi_percent := -1\<rparr>] \<noteq> [] \<and>
   conversion_rate row_3 = 3/10 \<and>
   conversion_rate (row_3\<lparr>campaign_id := 4, roi_percent := -1\<rparr>) = 3/10 \<and>
   campaign_alerts [row_3, row_3\<lparr>campaign_id := 4, roi_percent := -1\<rparr>] =
     [\<lparr>alert_campaign_id = 4, issue = ''Negative ROI'', severity = ''Critical'',
       recommendation = ''Pause campaign immediately and investigate CAC drivers''\<rparr>]"
  using equal_conversion_no_low_alerts [of "[row_3, row_3\<lparr>campaign_id := 4, roi_percent := -1\<rparr>]" "3/10"]
  by (simp add: campaign_alerts_eq row_3_def)

section \<open>The table object after a call\<close>

text \<open>
  Claim C9. For every campaign table, a call of \<^verbatim>\<open>overall_metrics\<close> or of
  \<^verbatim>\<open>campaign_alerts\<close> leaves the table as it was: the result is a value of its own,
  and the alerts are collected in a list local to the call.
\<close>

theorem calls_leave_table_unchanged:
  "snd (overall_metrics_call T) = T \<and> snd (campaign_alerts_call T) = T"
  by (simp only: campaign_alerts_call_snd overall_metrics_call_snd simp_thms)

end
